theory Spec2Isabelle
  imports Main
begin

section \<open>hola-proxy: the entry point (main.go)\<close>

text \<open>
  The repository's source is \<^verbatim>\<open>main.go\<close>: the command-line layer
  (\<^verbatim>\<open>parse_args\<close>, \<^verbatim>\<open>arg_fail\<close>) and the start-up wiring
  (\<^verbatim>\<open>run\<close>, \<^verbatim>\<open>main\<close>). Everything \<^verbatim>\<open>run\<close> calls
  (\<^verbatim>\<open>NewResolver\<close>, \<^verbatim>\<open>CredService\<close>, \<^verbatim>\<open>get_endpoint\<close>,
  \<^verbatim>\<open>NewProxyDialer\<close>, \<^verbatim>\<open>NewProxyHandler\<close>, \<^verbatim>\<open>print_countries\<close>,
  \<^verbatim>\<open>print_proxies\<close>, \<^verbatim>\<open>http.ListenAndServe\<close>) lives elsewhere, so
  \<^verbatim>\<open>run\<close> is modelled over an environment that supplies these functions, and
  returns the sequence of calls and outputs it performs (with each call's arguments and
  result) together with the way it ends.
\<close>

subsection \<open>Values\<close>

text \<open>A Go \<^verbatim>\<open>error\<close> that is not nil, by its message.\<close>

type_synonym error = string

text \<open>\<^verbatim>\<open>time.Duration\<close>: a number of nanoseconds.\<close>

type_synonym Duration = int

definition Second :: Duration where
  "Second = 1000000000"

definition Hour :: Duration where
  "Hour = 3600 * Second"

text \<open>\<^verbatim>\<open>var version = "undefined"\<close>\<close>

definition version :: string where
  "version = ''undefined''"

text \<open>
  Modelled from the spec: the type \<^verbatim>\<open>Endpoint\<close> is declared outside main.go.
  \<^verbatim>\<open>run\<close> reads \<^verbatim>\<open>endpoint.NetAddr()\<close> and \<^verbatim>\<open>endpoint.TLSName\<close>;
  the spec's TunnelEndpoint is \<open>{network address (host:port), TLS server name to
  validate against, proxy-class tag, trial-port flag, numeric port-field identifier}\<close>.
\<close>

record Endpoint =
  NetAddr :: string
  TLSName :: string
  proxy_class :: string
  trial_port :: bool
  port_field :: nat

text \<open>
  Modelled from the spec: the endpoint set returned by \<^verbatim>\<open>CredService\<close>
  (\<^verbatim>\<open>tunnels\<close> in \<^verbatim>\<open>run\<close>), \<open>keyed by no particular order beyond
  discovery order\<close>: the endpoints in discovery order.
\<close>

type_synonym tunnels = "Endpoint list"

text \<open>\<^verbatim>\<open>&net.Dialer{Timeout: ..., KeepAlive: ...}\<close>\<close>

record net_Dialer =
  Timeout :: Duration
  KeepAlive :: Duration

text \<open>
  \<^verbatim>\<open>NewCondLogger(log.New(logWriter, prefix, flags), verbosity)\<close>: a logger is
  known here by its prefix and its verbosity; \<^verbatim>\<open>run\<close> logs at two levels.
\<close>

datatype logger = CondLogger string int

datatype level = Info | Critical

subsection \<open>The command line\<close>

text \<open>
  The \<^verbatim>\<open>flag\<close> package is the standard library's. A command line that
  \<^verbatim>\<open>flag.Parse()\<close> accepts gives each flag it names a value of the flag's
  type; a flag it does not name keeps the default of its registration
  (\<^verbatim>\<open>flag.StringVar(&field, name, default, usage)\<close> and the like). A command line
  that \<^verbatim>\<open>flag.Parse()\<close> refuses ends the process inside the library and is not a
  \<open>cmdline\<close>; a value of the wrong type, which only such a command line has, is read
  as the default.
\<close>

datatype flag_value =
    BoolValue bool
  | StringValue string
  | UintValue nat
  | IntValue int
  | DurationValue Duration

type_synonym cmdline = "string \<rightharpoonup> flag_value"

definition StringVar :: "cmdline \<Rightarrow> string \<Rightarrow> string \<Rightarrow> string" where
  "StringVar cl name dflt = (case cl name of Some (StringValue s) \<Rightarrow> s | _ \<Rightarrow> dflt)"

definition BoolVar :: "cmdline \<Rightarrow> string \<Rightarrow> bool \<Rightarrow> bool" where
  "BoolVar cl name dflt = (case cl name of Some (BoolValue b) \<Rightarrow> b | _ \<Rightarrow> dflt)"

definition UintVar :: "cmdline \<Rightarrow> string \<Rightarrow> nat \<Rightarrow> nat" where
  "UintVar cl name dflt = (case cl name of Some (UintValue n) \<Rightarrow> n | _ \<Rightarrow> dflt)"

definition IntVar :: "cmdline \<Rightarrow> string \<Rightarrow> int \<Rightarrow> int" where
  "IntVar cl name dflt = (case cl name of Some (IntValue i) \<Rightarrow> i | _ \<Rightarrow> dflt)"

definition DurationVar :: "cmdline \<Rightarrow> string \<Rightarrow> Duration \<Rightarrow> Duration" where
  "DurationVar cl name dflt = (case cl name of Some (DurationValue d) \<Rightarrow> d | _ \<Rightarrow> dflt)"

text \<open>\<^verbatim>\<open>type CLIArgs struct\<close> (the field \<^verbatim>\<open>rotate\<close> is \<open>rotate_period\<close> here).\<close>

record CLIArgs =
  country :: string
  list_countries :: bool
  list_proxies :: bool
  use_trial :: bool
  limit :: nat
  bind_address :: string
  verbosity :: int
  timeout :: Duration
  rotate_period :: Duration
  proxy_type :: string
  resolver :: string
  force_port_field :: string
  showVersion :: bool

subsection \<open>What a run does\<close>

text \<open>
  The calls and outputs of a run, in order. A call carries its arguments and, last, what
  it returned. The type parameters are the handles the absent constructors return:
  \<open>'r\<close> the resolver, \<open>'a\<close> the credentials handle (\<^verbatim>\<open>auth\<close>), \<open>'d\<close> the
  dialer, \<open>'h\<close> the handler.
\<close>

datatype ('r, 'a, 'd, 'h) event =
    Stderr string
  | PrintDefaults
  | Stdout string
  | Call_print_countries Duration int
  | Call_print_proxies string string nat Duration int
  | Call_NewLogWriter
  | LogWriter_Close
  | Log logger level string "string list"
  | Call_NewResolver string Duration "error + 'r"
  | Call_CredService Duration Duration string string logger "error + 'a \<times> tunnels"
  | Call_get_endpoint tunnels string bool string "error + Endpoint"
  | Call_NewProxyDialer string string 'a net_Dialer 'd
  | Call_NewProxyHandler 'd 'r logger 'h
  | Call_ListenAndServe string 'h "error option"

text \<open>
  The functions \<^verbatim>\<open>run\<close> calls that are not in main.go. \<^verbatim>\<open>http.ListenAndServe\<close>
  serves until it fails: \<open>None\<close> is a server that never returns, \<open>Some err\<close> the
  error it returned (it never returns nil). \<open>URL\<close> is \<^verbatim>\<open>endpoint.URL().String()\<close>.
\<close>

record ('r, 'a, 'd, 'h) env =
  print_countries :: "Duration \<Rightarrow> int"
  print_proxies :: "string \<Rightarrow> string \<Rightarrow> nat \<Rightarrow> Duration \<Rightarrow> int"
  NewResolver :: "string \<Rightarrow> Duration \<Rightarrow> error + 'r"
  CredService :: "Duration \<Rightarrow> Duration \<Rightarrow> string \<Rightarrow> string \<Rightarrow> logger \<Rightarrow> error + 'a \<times> tunnels"
  get_endpoint :: "tunnels \<Rightarrow> string \<Rightarrow> bool \<Rightarrow> string \<Rightarrow> error + Endpoint"
  NewProxyDialer :: "string \<Rightarrow> string \<Rightarrow> 'a \<Rightarrow> net_Dialer \<Rightarrow> 'd"
  NewProxyHandler :: "'d \<Rightarrow> 'r \<Rightarrow> logger \<Rightarrow> 'h"
  ListenAndServe :: "string \<Rightarrow> 'h \<Rightarrow> error option"
  URL :: "Endpoint \<Rightarrow> string"

text \<open>
  How \<^verbatim>\<open>run\<close> ends: \<open>Exit c\<close> when \<^verbatim>\<open>os.Exit(c)\<close> was called inside it
  (by \<^verbatim>\<open>arg_fail\<close>), \<open>Return c\<close> when it returned \<open>c\<close>, \<open>NoReturn\<close> when
  the server never returned.
\<close>

datatype outcome = Exit int | Return int | NoReturn

subsection \<open>Argument validation\<close>

definition perror :: "string \<Rightarrow> ('r, 'a, 'd, 'h) event list" where
  "perror msg = [Stderr '''', Stderr msg]"

text \<open>\<^verbatim>\<open>arg_fail\<close> ends the process: its events and the code given to \<^verbatim>\<open>os.Exit\<close>.\<close>

definition arg_fail :: "string \<Rightarrow> ('r, 'a, 'd, 'h) event list \<times> int" where
  "arg_fail msg = (perror msg @ perror ''Usage:'' @ [PrintDefaults], 2)"

text \<open>The registrations and \<^verbatim>\<open>flag.Parse()\<close> (lines 51 to 69 of main.go).\<close>

definition flag_Parse :: "cmdline \<Rightarrow> CLIArgs" where
  "flag_Parse cl =
     \<lparr> country = StringVar cl ''country'' ''us'',
       list_countries = BoolVar cl ''list-countries'' False,
       list_proxies = BoolVar cl ''list-proxies'' False,
       use_trial = BoolVar cl ''dont-use-trial'' False,
       limit = UintVar cl ''limit'' 3,
       bind_address = StringVar cl ''bind-address'' ''127.0.0.1:8080'',
       verbosity = IntVar cl ''verbosity'' 20,
       timeout = DurationVar cl ''timeout'' (10 * Second),
       rotate_period = DurationVar cl ''rotate'' (1 * Hour),
       proxy_type = StringVar cl ''proxy-type'' ''direct'',
       resolver = StringVar cl ''resolver'' ''https://cloudflare-dns.com/dns-query'',
       force_port_field = StringVar cl ''force-port-field'' '''',
       showVersion = BoolVar cl ''version'' False \<rparr>"

text \<open>\<open>Inl c\<close>: the process exited with \<open>c\<close>; \<open>Inr args\<close>: \<^verbatim>\<open>parse_args\<close> returned.\<close>

definition parse_args :: "cmdline \<Rightarrow> ('r, 'a, 'd, 'h) event list \<times> (int + CLIArgs)" where
  "parse_args cl =
     (let args = flag_Parse cl in
      if country args = '''' then
        (case arg_fail ''Country can't be empty string.'' of (t, c) \<Rightarrow> (t, Inl c))
      else if proxy_type args = '''' then
        (case arg_fail ''Proxy type can't be an empty string.'' of (t, c) \<Rightarrow> (t, Inl c))
      else if list_countries args \<and> list_proxies args then
        (case arg_fail ''list-countries and list-proxies flags are mutually exclusive'' of
           (t, c) \<Rightarrow> (t, Inl c))
      else ([], Inr args))"

subsection \<open>run and main\<close>

definition mainLogger :: "CLIArgs \<Rightarrow> logger" where
  "mainLogger args = CondLogger ''MAIN    : '' (verbosity args)"

definition credLogger :: "CLIArgs \<Rightarrow> logger" where
  "credLogger args = CondLogger ''CRED    : '' (verbosity args)"

definition proxyLogger :: "CLIArgs \<Rightarrow> logger" where
  "proxyLogger args = CondLogger ''PROXY   : '' (verbosity args)"

text \<open>
  \<^verbatim>\<open>run\<close>, statement by statement. \<^verbatim>\<open>defer logWriter.Close()\<close> runs when
  \<^verbatim>\<open>run\<close> returns after line 97, so every such return ends with \<open>LogWriter_Close\<close>
  (a second one on the two paths that also close it by hand).
\<close>

definition run :: "('r, 'a, 'd, 'h) env \<Rightarrow> cmdline \<Rightarrow> ('r, 'a, 'd, 'h) event list \<times> outcome" where
  "run e cl =
     (case parse_args cl of
        (t0, Inl c) \<Rightarrow> (t0, Exit c)
      | (t0, Inr args) \<Rightarrow>
        if showVersion args then (t0 @ [Stdout version], Return 0)
        else if list_countries args then
          (let c = print_countries e (timeout args) in
           (t0 @ [Call_print_countries (timeout args) c], Return c))
        else if list_proxies args then
          (let c = print_proxies e (country args) (proxy_type args) (limit args) (timeout args) in
           (t0 @ [Call_print_proxies (country args) (proxy_type args) (limit args) (timeout args) c],
            Return c))
        else
          (let r = NewResolver e (resolver args) (timeout args);
               t1 = t0 @
                 [Call_NewLogWriter,
                  Log (mainLogger args) Info ''hola-proxy client version %s is starting...'' [version],
                  Log (mainLogger args) Info ''Constructing fallback DNS upstream...'' [],
                  Call_NewResolver (resolver args) (timeout args) r]
           in case r of
             Inl err \<Rightarrow>
               (t1 @ [Log (mainLogger args) Critical ''Unable to instantiate DNS resolver: %v'' [err],
                      LogWriter_Close],
                Return 6)
           | Inr res \<Rightarrow>
               (let cs = CredService e (rotate_period args) (timeout args) (country args)
                           (proxy_type args) (credLogger args);
                    t2 = t1 @
                      [Log (mainLogger args) Info ''Initializing configuration provider...'' [],
                       Call_CredService (rotate_period args) (timeout args) (country args)
                         (proxy_type args) (credLogger args) cs]
                in case cs of
                  Inl err \<Rightarrow>
                    (t2 @ [Log (mainLogger args) Critical
                             ''Unable to instantiate credential service: %v'' [err],
                           LogWriter_Close, LogWriter_Close],
                     Return 4)
                | Inr (auth, tuns) \<Rightarrow>
                    (let ge = get_endpoint e tuns (proxy_type args) (use_trial args)
                                (force_port_field args);
                         t3 = t2 @
                           [Call_get_endpoint tuns (proxy_type args) (use_trial args)
                              (force_port_field args) ge]
                     in case ge of
                       Inl err \<Rightarrow>
                         (t3 @ [Log (mainLogger args) Critical
                                  ''Unable to determine proxy endpoint: %v'' [err],
                                LogWriter_Close, LogWriter_Close],
                          Return 5)
                     | Inr endpoint \<Rightarrow>
                         (let nd = \<lparr> Timeout = 30 * Second, KeepAlive = 30 * Second \<rparr>;
                              dialer = NewProxyDialer e (NetAddr endpoint) (TLSName endpoint) auth nd;
                              handler = NewProxyHandler e dialer res (proxyLogger args);
                              served = ListenAndServe e (bind_address args) handler;
                              t4 = t3 @
                                [Call_NewProxyDialer (NetAddr endpoint) (TLSName endpoint) auth nd dialer,
                                 Log (mainLogger args) Info ''Endpoint: %s'' [URL e endpoint],
                                 Log (mainLogger args) Info ''Starting proxy server...'' [],
                                 Call_NewProxyHandler dialer res (proxyLogger args) handler,
                                 Log (mainLogger args) Info ''Init complete.'' [],
                                 Call_ListenAndServe (bind_address args) handler served]
                          in case served of
                            None \<Rightarrow> (t4, NoReturn)
                          | Some err \<Rightarrow>
                              (t4 @ [Log (mainLogger args) Critical
                                       ''Server terminated with a reason: %v'' [err],
                                     Log (mainLogger args) Info ''Shutting down...'' [],
                                     LogWriter_Close],
                               Return 0))))))"

text \<open>
  \<^verbatim>\<open>func main() { os.Exit(run()) }\<close>: the process's exit code, \<open>None\<close> while the
  server runs.
\<close>

definition main :: "('r, 'a, 'd, 'h) env \<Rightarrow> cmdline \<Rightarrow> ('r, 'a, 'd, 'h) event list \<times> int option" where
  "main e cl =
     (case run e cl of
        (t, Exit c) \<Rightarrow> (t, Some c)
      | (t, Return c) \<Rightarrow> (t, Some c)
      | (t, NoReturn) \<Rightarrow> (t, None))"

subsection \<open>Endpoint selection\<close>

text \<open>
  Modelled from the spec: \<^verbatim>\<open>get_endpoint\<close> is not in main.go. The spec's
  EndpointSelector is \<open>Select(endpointSet, proxyClass, useTrialPorts, forcedPortField)
  \<rightarrow> (endpoint, error)\<close>, with the policy, in order:
  \<^enum> if \<open>forcedPortField\<close> is non-empty, interpret it either as a literal port number
    or as a named port-field key; select the endpoint whose port-field identifier
    matches; fail with "no such port field" if none matches;
  \<^enum> otherwise filter the endpoint set to those matching \<open>proxyClass\<close> and the
    trial/paid flag; pick one deterministically (first match in discovery order);
  \<^enum> fail with "no matching endpoint" if filtering yields an empty set.

  The table of named port-field keys is not in the sources either: it is the parameter
  \<open>keys\<close>. A literal port number is a non-empty string of decimal digits.
\<close>

text \<open>Modelled from the spec: a decimal digit of a literal port number.\<close>

definition is_digit :: "char \<Rightarrow> bool" where
  "is_digit c = (48 \<le> (of_char c :: nat) \<and> (of_char c :: nat) \<le> 57)"

text \<open>
  Modelled from the spec: \<open>forcedPortField\<close> read as a literal port number, when it is
  one.
\<close>

definition literal_port :: "string \<Rightarrow> nat option" where
  "literal_port s =
     (if s \<noteq> [] \<and> list_all is_digit s
      then Some (foldl (\<lambda>n c. 10 * n + (of_char c - 48)) 0 s) else None)"

text \<open>
  Modelled from the spec: "interpret it either as a literal port number or as a named
  port-field key": the port-field identifier \<open>forcedPortField\<close> stands for, if any.
\<close>

definition forced_port_id :: "(string \<rightharpoonup> nat) \<Rightarrow> string \<Rightarrow> nat option" where
  "forced_port_id keys forced =
     (case literal_port forced of Some n \<Rightarrow> Some n | None \<Rightarrow> keys forced)"

text \<open>Modelled from the spec: "the endpoint whose port-field identifier matches".\<close>

definition port_matches :: "(string \<rightharpoonup> nat) \<Rightarrow> string \<Rightarrow> Endpoint \<Rightarrow> bool" where
  "port_matches keys forced ep = (forced_port_id keys forced = Some (port_field ep))"

text \<open>Modelled from the spec: "those matching \<open>proxyClass\<close> and the trial/paid flag".\<close>

definition class_matches :: "string \<Rightarrow> bool \<Rightarrow> Endpoint \<Rightarrow> bool" where
  "class_matches cls useTrial ep = (proxy_class ep = cls \<and> trial_port ep = useTrial)"

text \<open>
  Modelled from the spec: the selector as a function. In step 1 the spec says "the
  endpoint whose port-field identifier matches"; where several do, the first in
  discovery order is taken, as step 2 says for its own filter.
\<close>

definition Select ::
  "(string \<rightharpoonup> nat) \<Rightarrow> tunnels \<Rightarrow> string \<Rightarrow> bool \<Rightarrow> string \<Rightarrow> error + Endpoint" where
  "Select keys endpointSet proxyClass useTrialPorts forcedPortField =
     (if forcedPortField \<noteq> [] then
        (case find (port_matches keys forcedPortField) endpointSet of
           Some ep \<Rightarrow> Inr ep
         | None \<Rightarrow> Inl ''no such port field'')
      else
        (case filter (class_matches proxyClass useTrialPorts) endpointSet of
           [] \<Rightarrow> Inl ''no matching endpoint''
         | ep # _ \<Rightarrow> Inr ep))"

subsection \<open>Reading a run\<close>

fun is_NewResolver :: "('r, 'a, 'd, 'h) event \<Rightarrow> bool" where
  "is_NewResolver (Call_NewResolver _ _ _) = True"
| "is_NewResolver _ = False"

fun is_CredService :: "('r, 'a, 'd, 'h) event \<Rightarrow> bool" where
  "is_CredService (Call_CredService _ _ _ _ _ _) = True"
| "is_CredService _ = False"

fun is_get_endpoint :: "('r, 'a, 'd, 'h) event \<Rightarrow> bool" where
  "is_get_endpoint (Call_get_endpoint _ _ _ _ _) = True"
| "is_get_endpoint _ = False"

fun is_NewProxyDialer :: "('r, 'a, 'd, 'h) event \<Rightarrow> bool" where
  "is_NewProxyDialer (Call_NewProxyDialer _ _ _ _ _) = True"
| "is_NewProxyDialer _ = False"

fun is_NewProxyHandler :: "('r, 'a, 'd, 'h) event \<Rightarrow> bool" where
  "is_NewProxyHandler (Call_NewProxyHandler _ _ _ _) = True"
| "is_NewProxyHandler _ = False"

fun is_ListenAndServe :: "('r, 'a, 'd, 'h) event \<Rightarrow> bool" where
  "is_ListenAndServe (Call_ListenAndServe _ _ _) = True"
| "is_ListenAndServe _ = False"

text \<open>What \<^verbatim>\<open>arg_fail\<close> does before it exits: writes to stderr and the flags' usage.\<close>

fun is_usage_output :: "('r, 'a, 'd, 'h) event \<Rightarrow> bool" where
  "is_usage_output (Stderr _) = True"
| "is_usage_output PrintDefaults = True"
| "is_usage_output _ = False"

text \<open>
  The checks of \<^verbatim>\<open>parse_args\<close> (lines 70 to 78) on the parsed flags, as one
  condition.
\<close>

definition rejected :: "CLIArgs \<Rightarrow> bool" where
  "rejected args \<longleftrightarrow>
     country args = '''' \<or> proxy_type args = '''' \<or> (list_countries args \<and> list_proxies args)"

text \<open>
  The four start-up failures. Invalid arguments are a command line that one of the checks
  of \<^verbatim>\<open>parse_args\<close> refuses; the other three are an error returned by
  \<^verbatim>\<open>NewResolver\<close>, by \<^verbatim>\<open>CredService\<close> or by \<^verbatim>\<open>get_endpoint\<close>, read off
  the call in the run's events.
\<close>

datatype failure = InvalidArguments | ResolverFailure | DiscoveryFailure | SelectionFailure

fun failure_of :: "('r, 'a, 'd, 'h) event \<Rightarrow> failure option" where
  "failure_of (Call_NewResolver _ _ (Inl _)) = Some ResolverFailure"
| "failure_of (Call_CredService _ _ _ _ _ (Inl _)) = Some DiscoveryFailure"
| "failure_of (Call_get_endpoint _ _ _ _ (Inl _)) = Some SelectionFailure"
| "failure_of _ = None"

text \<open>\<open>fails_with e cl f\<close>: the run of \<open>cl\<close> in \<open>e\<close> fails in the way \<open>f\<close>.\<close>

definition fails_with :: "('r, 'a, 'd, 'h) env \<Rightarrow> cmdline \<Rightarrow> failure \<Rightarrow> bool" where
  "fails_with e cl f =
     (case f of
        InvalidArguments \<Rightarrow> rejected (flag_Parse cl)
      | _ \<Rightarrow> list_ex (\<lambda>ev. failure_of ev = Some f) (fst (run e cl)))"

subsection \<open>A concrete environment\<close>

text \<open>
  An environment to run the model on: discovery returns three endpoints, every
  constructor succeeds and returns what it was built from, and the server runs for ever.
  The runs below change one field at a time.
\<close>

definition example_tunnels :: tunnels where
  "example_tunnels =
     [\<lparr> NetAddr = ''10.0.0.1:22224'', TLSName = ''zagent1.example.net'',
        proxy_class = ''direct'', trial_port = True, port_field = 22224 \<rparr>,
      \<lparr> NetAddr = ''10.0.0.1:22222'', TLSName = ''zagent1.example.net'',
        proxy_class = ''direct'', trial_port = False, port_field = 22222 \<rparr>,
      \<lparr> NetAddr = ''10.0.0.1:22225'', TLSName = ''zagent1.example.net'',
        proxy_class = ''lum'', trial_port = False, port_field = 22225 \<rparr>]"

definition example_keys :: "string \<rightharpoonup> nat" where
  "example_keys = map_of [(''lum'', 22225)]"

definition example_env ::
  "(unit, nat, string \<times> string \<times> nat, (string \<times> string \<times> nat) \<times> unit) env" where
  "example_env =
     \<lparr> print_countries = (\<lambda>_. 0),
       print_proxies = (\<lambda>_ _ _ _. 0),
       NewResolver = (\<lambda>_ _. Inr ()),
       CredService = (\<lambda>_ _ _ _ _. Inr (1, example_tunnels)),
       get_endpoint = Select example_keys,
       NewProxyDialer = (\<lambda>address tlsName auth _. (address, tlsName, auth)),
       NewProxyHandler = (\<lambda>dialer res _. (dialer, res)),
       ListenAndServe = (\<lambda>_ _. None),
       URL = (\<lambda>ep. ''https://'' @ NetAddr ep) \<rparr>"

section \<open>Properties\<close>

subsection \<open>Facts shared by the proofs\<close>

lemma find_None_list_all: "find P xs = None \<longleftrightarrow> list_all (\<lambda>x. \<not> P x) xs"
  by (induction xs) auto

lemma arg_fail_events:
  "arg_fail msg = ([Stderr [], Stderr msg, Stderr [], Stderr ''Usage:'', PrintDefaults], 2)"
  by (simp add: arg_fail_def perror_def)

text \<open>\<^verbatim>\<open>parse_args\<close> ends the process with 2 exactly when one of its three checks fires.\<close>

lemma parse_args_rejected:
  assumes "rejected (flag_Parse cl)"
  shows "\<exists>msg. parse_args cl =
       ([Stderr [], Stderr msg, Stderr [], Stderr ''Usage:'', PrintDefaults], Inl 2)"
proof -
  let ?args = "flag_Parse cl"
  consider (country) "country ?args = []"
    | (proxy_type) "country ?args \<noteq> []" "proxy_type ?args = []"
    | (lists) "country ?args \<noteq> []" "proxy_type ?args \<noteq> []"
        "list_countries ?args \<and> list_proxies ?args"
    using assms unfolding rejected_def by blast
  then show ?thesis
  proof cases
    case country
    then show ?thesis by (simp add: parse_args_def arg_fail_events)
  next
    case proxy_type
    then show ?thesis by (simp add: parse_args_def arg_fail_events)
  next
    case lists
    then show ?thesis by (simp add: parse_args_def arg_fail_events)
  qed
qed

lemma parse_args_accepted:
  assumes "\<not> rejected (flag_Parse cl)"
  shows "parse_args cl = ([], Inr (flag_Parse cl))"
  using assms by (auto simp add: rejected_def parse_args_def Let_def)

lemma run_rejected:
  fixes e :: "('r, 'a, 'd, 'h) env"
  assumes "rejected (flag_Parse cl)"
  shows "\<exists>msg. run e cl =
    ([Stderr [], Stderr msg, Stderr [], Stderr ''Usage:'', PrintDefaults], Exit 2)"
proof -
  have "\<exists>msg. parse_args cl =
       ([Stderr [], Stderr msg, Stderr [], Stderr ''Usage:'', PrintDefaults]
          :: ('r, 'a, 'd, 'h) event list, Inl 2)"
    using assms by (rule parse_args_rejected)
  then obtain msg where pa:
    "parse_args cl =
       ([Stderr [], Stderr msg, Stderr [], Stderr ''Usage:'', PrintDefaults]
          :: ('r, 'a, 'd, 'h) event list, Inl 2)"
    by blast
  have "run e cl =
    ([Stderr [], Stderr msg, Stderr [], Stderr ''Usage:'', PrintDefaults], Exit 2)"
    by (simp only: run_def pa prod.case sum.case)
  then show ?thesis by blast
qed

text \<open>
  The nine ways a run can go, each with the whole of what it does: the checks of
  \<^verbatim>\<open>parse_args\<close>, the three early returns, the three failures that end start-up,
  and the server that runs for ever or returns an error.
\<close>

lemma run_cases
  [case_names rejected version countries proxies no_resolver no_credentials no_endpoint
    serving terminated]:
  fixes e :: "('r, 'a, 'd, 'h) env" and cl :: cmdline
  defines "args \<equiv> flag_Parse cl"
  defines "t1 \<equiv> \<lambda>r.
    [Call_NewLogWriter,
     Log (mainLogger args) Info ''hola-proxy client version %s is starting...'' [version],
     Log (mainLogger args) Info ''Constructing fallback DNS upstream...'' [],
     Call_NewResolver (resolver args) (timeout args) r]"
  defines "t2 \<equiv> \<lambda>r cs. t1 r @
    [Log (mainLogger args) Info ''Initializing configuration provider...'' [],
     Call_CredService (rotate_period args) (timeout args) (country args) (proxy_type args)
       (credLogger args) cs]"
  defines "t3 \<equiv> \<lambda>res auth tuns ge. t2 (Inr res) (Inr (auth, tuns)) @
    [Call_get_endpoint tuns (proxy_type args) (use_trial args) (force_port_field args) ge]"
  defines "nd \<equiv> \<lparr> Timeout = 30 * Second, KeepAlive = 30 * Second \<rparr>"
  defines "t4 \<equiv> \<lambda>res auth tuns ep served. t3 res auth tuns (Inr ep) @
    [Call_NewProxyDialer (NetAddr ep) (TLSName ep) auth nd
       (NewProxyDialer e (NetAddr ep) (TLSName ep) auth nd),
     Log (mainLogger args) Info ''Endpoint: %s'' [URL e ep],
     Log (mainLogger args) Info ''Starting proxy server...'' [],
     Call_NewProxyHandler (NewProxyDialer e (NetAddr ep) (TLSName ep) auth nd) res
       (proxyLogger args)
       (NewProxyHandler e (NewProxyDialer e (NetAddr ep) (TLSName ep) auth nd) res
          (proxyLogger args)),
     Log (mainLogger args) Info ''Init complete.'' [],
     Call_ListenAndServe (bind_address args)
       (NewProxyHandler e (NewProxyDialer e (NetAddr ep) (TLSName ep) auth nd) res
          (proxyLogger args))
       served]"
  obtains
    (rejected) msg where "rejected args"
      "run e cl = ([Stderr [], Stderr msg, Stderr [], Stderr ''Usage:'', PrintDefaults], Exit 2)"
  | (version) "\<not> rejected args" "showVersion args"
      "run e cl = ([Stdout version], Return 0)"
  | (countries) "\<not> rejected args" "\<not> showVersion args" "list_countries args"
      "run e cl =
         ([Call_print_countries (timeout args) (print_countries e (timeout args))],
          Return (print_countries e (timeout args)))"
  | (proxies) "\<not> rejected args" "\<not> showVersion args" "list_proxies args"
      "run e cl =
         ([Call_print_proxies (country args) (proxy_type args) (limit args) (timeout args)
             (print_proxies e (country args) (proxy_type args) (limit args) (timeout args))],
          Return (print_proxies e (country args) (proxy_type args) (limit args) (timeout args)))"
  | (no_resolver) err where "\<not> rejected args" "\<not> showVersion args"
      "NewResolver e (resolver args) (timeout args) = Inl err"
      "run e cl =
         (t1 (Inl err) @
          [Log (mainLogger args) Critical ''Unable to instantiate DNS resolver: %v'' [err],
           LogWriter_Close],
          Return 6)"
  | (no_credentials) res err where "\<not> rejected args" "\<not> showVersion args"
      "NewResolver e (resolver args) (timeout args) = Inr res"
      "CredService e (rotate_period args) (timeout args) (country args) (proxy_type args)
         (credLogger args) = Inl err"
      "run e cl =
         (t2 (Inr res) (Inl err) @
          [Log (mainLogger args) Critical ''Unable to instantiate credential service: %v'' [err],
           LogWriter_Close, LogWriter_Close],
          Return 4)"
  | (no_endpoint) res auth tuns err where "\<not> rejected args" "\<not> showVersion args"
      "NewResolver e (resolver args) (timeout args) = Inr res"
      "CredService e (rotate_period args) (timeout args) (country args) (proxy_type args)
         (credLogger args) = Inr (auth, tuns)"
      "get_endpoint e tuns (proxy_type args) (use_trial args) (force_port_field args) = Inl err"
      "run e cl =
         (t3 res auth tuns (Inl err) @
          [Log (mainLogger args) Critical ''Unable to determine proxy endpoint: %v'' [err],
           LogWriter_Close, LogWriter_Close],
          Return 5)"
  | (serving) res auth tuns ep where "\<not> rejected args" "\<not> showVersion args"
      "NewResolver e (resolver args) (timeout args) = Inr res"
      "CredService e (rotate_period args) (timeout args) (country args) (proxy_type args)
         (credLogger args) = Inr (auth, tuns)"
      "get_endpoint e tuns (proxy_type args) (use_trial args) (force_port_field args) = Inr ep"
      "ListenAndServe e (bind_address args)
         (NewProxyHandler e (NewProxyDialer e (NetAddr ep) (TLSName ep) auth nd) res
            (proxyLogger args)) = None"
      "run e cl = (t4 res auth tuns ep None, NoReturn)"
  | (terminated) res auth tuns ep err where "\<not> rejected args" "\<not> showVersion args"
      "NewResolver e (resolver args) (timeout args) = Inr res"
      "CredService e (rotate_period args) (timeout args) (country args) (proxy_type args)
         (credLogger args) = Inr (auth, tuns)"
      "get_endpoint e tuns (proxy_type args) (use_trial args) (force_port_field args) = Inr ep"
      "ListenAndServe e (bind_address args)
         (NewProxyHandler e (NewProxyDialer e (NetAddr ep) (TLSName ep) auth nd) res
            (proxyLogger args)) = Some err"
      "run e cl =
         (t4 res auth tuns ep (Some err) @
          [Log (mainLogger args) Critical ''Server terminated with a reason: %v'' [err],
           Log (mainLogger args) Info ''Shutting down...'' [],
           LogWriter_Close],
          Return 0)"
proof (cases "rejected args")
  case True
  with run_rejected [of cl e] rejected show thesis
    unfolding args_def by blast
next
  case accepted: False
  then have pa: "parse_args cl = ([] :: ('r, 'a, 'd, 'h) event list, Inr args)"
    unfolding args_def by (rule parse_args_accepted)
  note run = run_def [of e cl, unfolded pa prod.case sum.case Let_def append_Nil]
  show thesis
  proof (cases "showVersion args")
    case True
    with accepted version show thesis by (simp add: run)
  next
    case no_version: False
    show thesis
    proof (cases "list_countries args")
      case True
      with accepted no_version countries show thesis by (simp add: run)
    next
      case no_countries: False
      show thesis
      proof (cases "list_proxies args")
        case True
        with accepted no_version no_countries proxies show thesis by (simp add: run)
      next
        case no_proxies: False
        show thesis
        proof (cases "NewResolver e (resolver args) (timeout args)")
          case (Inl err)
          with accepted no_version no_countries no_proxies no_resolver [of err] show thesis
            by (simp add: run t1_def)
        next
          case res: (Inr res)
          show thesis
          proof (cases "CredService e (rotate_period args) (timeout args) (country args)
              (proxy_type args) (credLogger args)")
            case (Inl err)
            with accepted no_version no_countries no_proxies res no_credentials [of res err]
            show thesis
              by (simp add: run t1_def t2_def)
          next
            case (Inr creds)
            obtain auth tuns where creds: "creds = (auth, tuns)" by (cases creds)
            note cs = Inr [unfolded creds]
            show thesis
            proof (cases "get_endpoint e tuns (proxy_type args) (use_trial args)
                (force_port_field args)")
              case (Inl err)
              with accepted no_version no_countries no_proxies res cs
                no_endpoint [of res auth tuns err]
              show thesis
                by (simp add: run t1_def t2_def t3_def)
            next
              case ep: (Inr ep)
              show thesis
              proof (cases "ListenAndServe e (bind_address args)
                  (NewProxyHandler e (NewProxyDialer e (NetAddr ep) (TLSName ep) auth nd) res
                    (proxyLogger args))")
                case None
                with accepted no_version no_countries no_proxies res cs ep
                  serving [of res auth tuns ep]
                show thesis
                  by (simp add: run t1_def t2_def t3_def t4_def nd_def)
              next
                case (Some err)
                with accepted no_version no_countries no_proxies res cs ep
                  terminated [of res auth tuns ep err]
                show thesis
                  by (simp add: run t1_def t2_def t3_def t4_def nd_def)
              qed
            qed
          qed
        qed
      qed
    qed
  qed
qed

text \<open>Unfolding sets for running the model on a concrete command line and environment.\<close>

lemmas run_eval = run_def main_def parse_args_def arg_fail_def perror_def flag_Parse_def
  StringVar_def BoolVar_def UintVar_def IntVar_def DurationVar_def
  mainLogger_def credLogger_def proxyLogger_def Let_def

lemmas select_eval = Select_def port_matches_def class_matches_def forced_port_id_def
  literal_port_def is_digit_def example_keys_def example_tunnels_def

subsection \<open>Discovery failure\<close>

text \<open>
  Claim C1. In every run in which \<^verbatim>\<open>CredService\<close> returns an error (the control
  plane answers 403, say), \<^verbatim>\<open>run\<close> returns 4, which \<^verbatim>\<open>main\<close> hands to
  \<^verbatim>\<open>os.Exit\<close>, and the run has no call of \<^verbatim>\<open>NewProxyDialer\<close>, of
  \<^verbatim>\<open>NewProxyHandler\<close> or of \<^verbatim>\<open>http.ListenAndServe\<close>.
\<close>

theorem discovery_failure_exit_code:
  fixes e :: "('r, 'a, 'd, 'h) env"
  assumes "Call_CredService ro ti co pt lg (Inl err) \<in> set (fst (run e cl))"
  shows "CredService e ro ti co pt lg = Inl err \<and>
         snd (run e cl) = Return 4 \<and> snd (main e cl) = Some 4 \<and>
         filter is_NewProxyDialer (fst (run e cl)) = [] \<and>
         filter is_NewProxyHandler (fst (run e cl)) = [] \<and>
         filter is_ListenAndServe (fst (run e cl)) = []"
proof (cases rule: run_cases [where e = e and cl = cl])
  case (no_credentials res err')
  with assms show ?thesis by (auto simp: main_def)
qed (use assms in auto)

text \<open>The default command line, with a control plane that answers 403.\<close>

theorem discovery_failure_exit_code_witness:
  "Call_CredService (1 * Hour) (10 * Second) ''us'' ''direct'' (CondLogger ''CRED    : '' 20)
       (Inl ''403 Forbidden'')
     \<in> set (fst (run (example_env\<lparr>CredService := (\<lambda>_ _ _ _ _. Inl ''403 Forbidden'')\<rparr>) Map.empty))
   \<and> snd (main (example_env\<lparr>CredService := (\<lambda>_ _ _ _ _. Inl ''403 Forbidden'')\<rparr>) Map.empty) = Some 4
   \<and> filter is_NewProxyDialer
        (fst (run (example_env\<lparr>CredService := (\<lambda>_ _ _ _ _. Inl ''403 Forbidden'')\<rparr>) Map.empty)) = []"
proof -
  let ?e = "example_env\<lparr>CredService := (\<lambda>_ _ _ _ _. Inl ''403 Forbidden'')\<rparr>"
  have h: "Call_CredService (1 * Hour) (10 * Second) ''us'' ''direct'' (CondLogger ''CRED    : '' 20)
       (Inl ''403 Forbidden'') \<in> set (fst (run ?e Map.empty))"
    by (simp add: run_eval example_env_def)
  from discovery_failure_exit_code [OF h] h show ?thesis by simp
qed

subsection \<open>The server loop ends with an error\<close>

text \<open>
  Claim C3 says that a run whose server loop ends with an error (a bind address already
  in use, say) exits with a code that is not zero. The code logs the error as critical,
  as it does for the three failures before it, and then returns 0: whenever
  \<^verbatim>\<open>http.ListenAndServe\<close> returns an error, the exit code is 0.
\<close>

theorem server_error_exit_code:
  fixes e :: "('r, 'a, 'd, 'h) env"
  assumes "Call_ListenAndServe address h (Some err) \<in> set (fst (run e cl))"
  shows "ListenAndServe e address h = Some err \<and>
         snd (run e cl) = Return 0 \<and> snd (main e cl) = Some 0"
proof (cases rule: run_cases [where e = e and cl = cl])
  case (terminated res auth tuns ep err')
  with assms show ?thesis by (auto simp: main_def)
qed (use assms in auto)

text \<open>The default command line, when the bind address is taken.\<close>

theorem server_error_exit_code_witness:
  "Call_ListenAndServe ''127.0.0.1:8080'' ((''10.0.0.1:22222'', ''zagent1.example.net'', 1), ())
      (Some ''listen tcp 127.0.0.1:8080: bind: address already in use'')
    \<in> set (fst (run (example_env\<lparr>ListenAndServe :=
          (\<lambda>_ _. Some ''listen tcp 127.0.0.1:8080: bind: address already in use'')\<rparr>) Map.empty))
   \<and> snd (main (example_env\<lparr>ListenAndServe :=
          (\<lambda>_ _. Some ''listen tcp 127.0.0.1:8080: bind: address already in use'')\<rparr>) Map.empty)
       = Some 0"
proof -
  let ?e = "example_env\<lparr>ListenAndServe :=
          (\<lambda>_ _. Some ''listen tcp 127.0.0.1:8080: bind: address already in use'')\<rparr>"
  have h: "Call_ListenAndServe ''127.0.0.1:8080'' ((''10.0.0.1:22222'', ''zagent1.example.net'', 1), ())
      (Some ''listen tcp 127.0.0.1:8080: bind: address already in use'')
    \<in> set (fst (run ?e Map.empty))"
    by (simp add: run_eval example_env_def select_eval)
  from server_error_exit_code [OF h] h show ?thesis by simp
qed

subsection \<open>Rejected command lines\<close>

text \<open>
  Claim C9. An empty country, an empty proxy type, and \<^verbatim>\<open>-list-countries\<close> together
  with \<^verbatim>\<open>-list-proxies\<close> each end the process with the usage error code 2, and all
  the run has done by then is write the message and the usage to stderr: no call of the
  environment, so no network activity and no component.
\<close>

theorem invalid_arguments_rejected:
  fixes e :: "('r, 'a, 'd, 'h) env"
  assumes "country (flag_Parse cl) = '''' \<or> proxy_type (flag_Parse cl) = '''' \<or>
           (list_countries (flag_Parse cl) \<and> list_proxies (flag_Parse cl))"
  shows "snd (run e cl) = Exit 2 \<and> snd (main e cl) = Some 2 \<and>
         list_all is_usage_output (fst (run e cl))"
proof -
  from assms have "rejected (flag_Parse cl)"
    by (simp add: rejected_def)
  from run_rejected [OF this] obtain msg where
    "run e cl = ([Stderr [], Stderr msg, Stderr [], Stderr ''Usage:'', PrintDefaults], Exit 2)"
    by blast
  then show ?thesis by (simp add: main_def)
qed

text \<open>One command line for each of the three checks.\<close>

theorem invalid_arguments_rejected_witness:
  "country (flag_Parse [''country'' \<mapsto> StringValue '''']) = '''' \<and>
   snd (main example_env [''country'' \<mapsto> StringValue '''']) = Some 2 \<and>
   proxy_type (flag_Parse [''proxy-type'' \<mapsto> StringValue '''']) = '''' \<and>
   snd (main example_env [''proxy-type'' \<mapsto> StringValue '''']) = Some 2 \<and>
   list_countries (flag_Parse [''list-countries'' \<mapsto> BoolValue True, ''list-proxies'' \<mapsto> BoolValue True]) \<and>
   list_proxies (flag_Parse [''list-countries'' \<mapsto> BoolValue True, ''list-proxies'' \<mapsto> BoolValue True]) \<and>
   snd (main example_env [''list-countries'' \<mapsto> BoolValue True, ''list-proxies'' \<mapsto> BoolValue True]) = Some 2"
proof -
  have h1: "country (flag_Parse [''country'' \<mapsto> StringValue '''']) = ''''"
    by (simp add: flag_Parse_def StringVar_def)
  have h2: "proxy_type (flag_Parse [''proxy-type'' \<mapsto> StringValue '''']) = ''''"
    by (simp add: flag_Parse_def StringVar_def)
  have h3: "list_countries (flag_Parse [''list-countries'' \<mapsto> BoolValue True, ''list-proxies'' \<mapsto> BoolValue True]) \<and>
   list_proxies (flag_Parse [''list-countries'' \<mapsto> BoolValue True, ''list-proxies'' \<mapsto> BoolValue True])"
    by (simp add: flag_Parse_def BoolVar_def)
  from invalid_arguments_rejected [of "[''country'' \<mapsto> StringValue '''']" example_env]
    invalid_arguments_rejected [of "[''proxy-type'' \<mapsto> StringValue '''']" example_env]
    invalid_arguments_rejected [of "[''list-countries'' \<mapsto> BoolValue True, ''list-proxies'' \<mapsto> BoolValue True]" example_env]
    h1 h2 h3
  show ?thesis by blast
qed

subsection \<open>Exit codes of the start-up failures\<close>

text \<open>An error returned by one of the three calls is a failure of the run.\<close>

lemma fails_withI:
  assumes "ev \<in> set (fst (run e cl))" and "failure_of ev = Some f"
  shows "fails_with e cl f"
proof -
  from assms(2) have "f \<noteq> InvalidArguments"
    by (cases ev rule: failure_of.cases) simp_all
  moreover from assms have "list_ex (\<lambda>ev. failure_of ev = Some f) (fst (run e cl))"
    unfolding list_ex_iff by (rule bexI [rotated])
  ultimately show ?thesis
    by (cases f) (simp_all add: fails_with_def)
qed

text \<open>One run: the way it fails fixes the exit code.\<close>

lemma exit_code_of_failure:
  fixes e :: "('r, 'a, 'd, 'h) env"
  assumes "fails_with e cl f"
  shows "snd (main e cl) =
           Some (case f of InvalidArguments \<Rightarrow> 2 | ResolverFailure \<Rightarrow> 6
                 | DiscoveryFailure \<Rightarrow> 4 | SelectionFailure \<Rightarrow> 5)"
proof (cases rule: run_cases [where e = e and cl = cl])
  case (rejected msg)
  with assms show ?thesis
    by (cases f) (simp_all add: fails_with_def main_def)
next
  case version
  with assms show ?thesis
    by (cases f) (simp_all add: fails_with_def main_def)
next
  case countries
  with assms show ?thesis
    by (cases f) (simp_all add: fails_with_def main_def)
next
  case proxies
  with assms show ?thesis
    by (cases f) (simp_all add: fails_with_def main_def)
next
  case (no_resolver err)
  with assms show ?thesis
    by (cases f) (simp_all add: fails_with_def main_def)
next
  case (no_credentials res err)
  with assms show ?thesis
    by (cases f) (simp_all add: fails_with_def main_def)
next
  case (no_endpoint res auth tuns err)
  with assms show ?thesis
    by (cases f) (simp_all add: fails_with_def main_def)
next
  case (serving res auth tuns ep)
  with assms show ?thesis
    by (cases f) (simp_all add: fails_with_def main_def)
next
  case (terminated res auth tuns ep err)
  with assms show ?thesis
    by (cases f) (simp_all add: fails_with_def main_def)
qed

text \<open>
  Claim C2. Each start-up failure ends the process with a code of its own, none of them 0:
  a command line that \<^verbatim>\<open>parse_args\<close> refuses with 2, a resolver that cannot be built
  with 6, a discovery (\<^verbatim>\<open>CredService\<close>) failure with 4, an endpoint selection failure
  with 5. Two runs that fail end with the same code exactly when they fail in the same
  way.
\<close>

theorem startup_failure_exit_codes:
  fixes e :: "('r, 'a, 'd, 'h) env" and e' :: "('r2, 'a2, 'd2, 'h2) env"
  shows "(rejected (flag_Parse cl) \<longrightarrow> snd (main e cl) = Some 2) \<and>
         (Call_NewResolver rs rt (Inl err1) \<in> set (fst (run e cl)) \<longrightarrow>
            snd (main e cl) = Some 6) \<and>
         (Call_CredService ro ti co pt lg (Inl err2) \<in> set (fst (run e cl)) \<longrightarrow>
            snd (main e cl) = Some 4) \<and>
         (Call_get_endpoint tuns pty trial fpf (Inl err3) \<in> set (fst (run e cl)) \<longrightarrow>
            snd (main e cl) = Some 5) \<and>
         (fails_with e cl f \<longrightarrow>
            snd (main e cl) =
              Some (case f of InvalidArguments \<Rightarrow> 2 | ResolverFailure \<Rightarrow> 6
                    | DiscoveryFailure \<Rightarrow> 4 | SelectionFailure \<Rightarrow> 5) \<and>
            snd (main e cl) \<noteq> Some 0) \<and>
         (fails_with e cl f \<and> fails_with e' cl' f' \<longrightarrow>
            (snd (main e cl) = snd (main e' cl') \<longleftrightarrow> f = f'))"
proof (intro conjI impI)
  assume "rejected (flag_Parse cl)"
  then have "fails_with e cl InvalidArguments"
    by (simp add: fails_with_def)
  from exit_code_of_failure [OF this] show "snd (main e cl) = Some 2"
    by simp
next
  assume "Call_NewResolver rs rt (Inl err1) \<in> set (fst (run e cl))"
  then have "fails_with e cl ResolverFailure"
    by (rule fails_withI) simp
  from exit_code_of_failure [OF this] show "snd (main e cl) = Some 6"
    by simp
next
  assume "Call_CredService ro ti co pt lg (Inl err2) \<in> set (fst (run e cl))"
  then have "fails_with e cl DiscoveryFailure"
    by (rule fails_withI) simp
  from exit_code_of_failure [OF this] show "snd (main e cl) = Some 4"
    by simp
next
  assume "Call_get_endpoint tuns pty trial fpf (Inl err3) \<in> set (fst (run e cl))"
  then have "fails_with e cl SelectionFailure"
    by (rule fails_withI) simp
  from exit_code_of_failure [OF this] show "snd (main e cl) = Some 5"
    by simp
next
  assume f: "fails_with e cl f"
  from exit_code_of_failure [OF f]
  show "snd (main e cl) =
          Some (case f of InvalidArguments \<Rightarrow> 2 | ResolverFailure \<Rightarrow> 6
                | DiscoveryFailure \<Rightarrow> 4 | SelectionFailure \<Rightarrow> 5)" .
  from exit_code_of_failure [OF f] show "snd (main e cl) \<noteq> Some 0"
    by (cases f) simp_all
next
  assume "fails_with e cl f \<and> fails_with e' cl' f'"
  then have f: "fails_with e cl f" and f': "fails_with e' cl' f'"
    by simp_all
  show "snd (main e cl) = snd (main e' cl') \<longleftrightarrow> f = f'"
    unfolding exit_code_of_failure [OF f] exit_code_of_failure [OF f']
    by (cases f; cases f') simp_all
qed

text \<open>
  Four runs, one for each failure: an empty \<^verbatim>\<open>-country\<close>, a resolver that cannot be
  built, a control plane that answers 403, and a proxy type no endpoint has.
\<close>

theorem startup_failure_exit_codes_witness:
  "rejected (flag_Parse [''country'' \<mapsto> StringValue '''']) \<and>
   snd (main example_env [''country'' \<mapsto> StringValue '''']) = Some 2 \<and>
   Call_NewResolver ''https://cloudflare-dns.com/dns-query'' (10 * Second) (Inl ''bad upstream'')
     \<in> set (fst (run (example_env\<lparr>NewResolver := (\<lambda>_ _. Inl ''bad upstream'')\<rparr>) Map.empty)) \<and>
   snd (main (example_env\<lparr>NewResolver := (\<lambda>_ _. Inl ''bad upstream'')\<rparr>) Map.empty) = Some 6 \<and>
   Call_CredService (1 * Hour) (10 * Second) ''us'' ''direct'' (CondLogger ''CRED    : '' 20)
       (Inl ''403 Forbidden'')
     \<in> set (fst (run (example_env\<lparr>CredService := (\<lambda>_ _ _ _ _. Inl ''403 Forbidden'')\<rparr>) Map.empty)) \<and>
   snd (main (example_env\<lparr>CredService := (\<lambda>_ _ _ _ _. Inl ''403 Forbidden'')\<rparr>) Map.empty) = Some 4 \<and>
   Call_get_endpoint example_tunnels ''peer'' False '''' (Inl ''no matching endpoint'')
     \<in> set (fst (run example_env [''proxy-type'' \<mapsto> StringValue ''peer''])) \<and>
   snd (main example_env [''proxy-type'' \<mapsto> StringValue ''peer'']) = Some 5 \<and>
   fails_with example_env [''country'' \<mapsto> StringValue ''''] InvalidArguments \<and>
   fails_with (example_env\<lparr>NewResolver := (\<lambda>_ _. Inl ''bad upstream'')\<rparr>) Map.empty
     ResolverFailure \<and>
   snd (main example_env [''country'' \<mapsto> StringValue ''''])
     \<noteq> snd (main (example_env\<lparr>NewResolver := (\<lambda>_ _. Inl ''bad upstream'')\<rparr>) Map.empty)"
proof -
  let ?clc = "[''country'' \<mapsto> StringValue '''']"
  let ?clp = "[''proxy-type'' \<mapsto> StringValue ''peer'']"
  let ?er = "example_env\<lparr>NewResolver := (\<lambda>_ _. Inl ''bad upstream'')\<rparr>"
  let ?ec = "example_env\<lparr>CredService := (\<lambda>_ _ _ _ _. Inl ''403 Forbidden'')\<rparr>"
  have h1: "rejected (flag_Parse ?clc)"
    by (simp add: rejected_def flag_Parse_def StringVar_def)
  have h2: "Call_NewResolver ''https://cloudflare-dns.com/dns-query'' (10 * Second)
      (Inl ''bad upstream'') \<in> set (fst (run ?er Map.empty))"
    by (simp add: run_eval example_env_def)
  have h3: "Call_CredService (1 * Hour) (10 * Second) ''us'' ''direct''
      (CondLogger ''CRED    : '' 20) (Inl ''403 Forbidden'') \<in> set (fst (run ?ec Map.empty))"
    by (simp add: run_eval example_env_def)
  have h4: "Call_get_endpoint example_tunnels ''peer'' False '''' (Inl ''no matching endpoint'')
     \<in> set (fst (run example_env ?clp))"
    by (simp add: run_eval example_env_def select_eval)
  have f1: "fails_with example_env ?clc InvalidArguments"
    using h1 by (simp add: fails_with_def)
  have f2: "fails_with ?er Map.empty ResolverFailure"
    using h2 by (rule fails_withI) simp
  have c1: "snd (main example_env ?clc) = Some 2"
    using startup_failure_exit_codes [where e = example_env and cl = ?clc] h1 by blast
  have c2: "snd (main ?er Map.empty) = Some 6"
    using startup_failure_exit_codes [where e = ?er and cl = Map.empty] h2 by blast
  have c3: "snd (main ?ec Map.empty) = Some 4"
    using startup_failure_exit_codes [where e = ?ec and cl = Map.empty] h3 by blast
  have c4: "snd (main example_env ?clp) = Some 5"
    using startup_failure_exit_codes [where e = example_env and cl = ?clp] h4 by blast
  have "snd (main example_env ?clc) = snd (main ?er Map.empty) \<longleftrightarrow>
      InvalidArguments = ResolverFailure"
    using startup_failure_exit_codes
      [where e = example_env and cl = ?clc and f = InvalidArguments
         and e' = ?er and cl' = Map.empty and f' = ResolverFailure] f1 f2
    by blast
  then have d: "snd (main example_env ?clc) \<noteq> snd (main ?er Map.empty)"
    by simp
  from h1 h2 h3 h4 f1 f2 c1 c2 c3 c4 d show ?thesis by blast
qed

subsection \<open>Endpoint selection\<close>

lemma find_Some_member: "find P xs = Some x \<Longrightarrow> x \<in> set xs \<and> P x"
  by (induction xs) (auto split: if_splits)

text \<open>
  Claim C5. Selection fails closed. With a forced port field the selector returns an
  endpoint of the set whose port-field identifier matches it, or the error "no such port
  field" when none matches; without one, when no endpoint has the proxy class and the
  trial flag asked for, it returns the error "no matching endpoint". And whatever error
  \<^verbatim>\<open>get_endpoint\<close> returns, \<^verbatim>\<open>run\<close> returns 5 and has built neither the dialer nor
  the handler, nor started the server.
\<close>

theorem selection_fails_closed:
  fixes e :: "('r, 'a, 'd, 'h) env"
  shows "(forced \<noteq> [] \<longrightarrow>
            (case Select keys eps cls trial forced of
               Inr ep \<Rightarrow> ep \<in> set eps \<and> port_matches keys forced ep
             | Inl err \<Rightarrow> err = ''no such port field'' \<and>
                 list_all (\<lambda>ep. \<not> port_matches keys forced ep) eps)) \<and>
         (forced = [] \<and> filter (class_matches cls trial) eps = [] \<longrightarrow>
            Select keys eps cls trial forced = Inl ''no matching endpoint'') \<and>
         (Call_get_endpoint tuns pt ut fpf (Inl err) \<in> set (fst (run e cl)) \<longrightarrow>
            get_endpoint e tuns pt ut fpf = Inl err \<and>
            snd (run e cl) = Return 5 \<and> snd (main e cl) = Some 5 \<and>
            filter is_NewProxyDialer (fst (run e cl)) = [] \<and>
            filter is_NewProxyHandler (fst (run e cl)) = [] \<and>
            filter is_ListenAndServe (fst (run e cl)) = [])"
proof (intro conjI impI)
  assume forced: "forced \<noteq> []"
  show "case Select keys eps cls trial forced of
          Inr ep \<Rightarrow> ep \<in> set eps \<and> port_matches keys forced ep
        | Inl err \<Rightarrow> err = ''no such port field'' \<and>
            list_all (\<lambda>ep. \<not> port_matches keys forced ep) eps"
  proof (cases "find (port_matches keys forced) eps")
    case None
    with forced show ?thesis
      by (simp add: Select_def find_None_list_all [symmetric])
  next
    case (Some ep)
    from find_Some_member [OF this] forced Some show ?thesis
      by (simp add: Select_def)
  qed
next
  assume "forced = [] \<and> filter (class_matches cls trial) eps = []"
  then show "Select keys eps cls trial forced = Inl ''no matching endpoint''"
    by (simp add: Select_def)
next
  assume call: "Call_get_endpoint tuns pt ut fpf (Inl err) \<in> set (fst (run e cl))"
  then have "get_endpoint e tuns pt ut fpf = Inl err \<and>
            snd (run e cl) = Return 5 \<and> snd (main e cl) = Some 5 \<and>
            filter is_NewProxyDialer (fst (run e cl)) = [] \<and>
            filter is_NewProxyHandler (fst (run e cl)) = [] \<and>
            filter is_ListenAndServe (fst (run e cl)) = []"
    by (cases rule: run_cases [where e = e and cl = cl]) (auto simp: main_def)
  then show "get_endpoint e tuns pt ut fpf = Inl err"
    and "snd (run e cl) = Return 5" and "snd (main e cl) = Some 5"
    and "filter is_NewProxyDialer (fst (run e cl)) = []"
    and "filter is_NewProxyHandler (fst (run e cl)) = []"
    and "filter is_ListenAndServe (fst (run e cl)) = []"
    by blast+
qed

text \<open>
  A port number, a named key, a port no endpoint has, and the run with
  \<^verbatim>\<open>-proxy-type peer\<close>.
\<close>

theorem selection_fails_closed_witness:
  "Select example_keys example_tunnels ''direct'' False ''22225'' = Inr (example_tunnels ! 2) \<and>
   Select example_keys example_tunnels ''direct'' False ''lum'' = Inr (example_tunnels ! 2) \<and>
   Select example_keys example_tunnels ''direct'' False ''443'' = Inl ''no such port field'' \<and>
   list_all (\<lambda>ep. \<not> port_matches example_keys ''443'' ep) example_tunnels \<and>
   filter (class_matches ''peer'' False) example_tunnels = [] \<and>
   Select example_keys example_tunnels ''peer'' False '''' = Inl ''no matching endpoint'' \<and>
   Call_get_endpoint example_tunnels ''peer'' False '''' (Inl ''no matching endpoint'')
     \<in> set (fst (run example_env [''proxy-type'' \<mapsto> StringValue ''peer''])) \<and>
   snd (main example_env [''proxy-type'' \<mapsto> StringValue ''peer'']) = Some 5 \<and>
   filter is_NewProxyDialer (fst (run example_env [''proxy-type'' \<mapsto> StringValue ''peer''])) = []"
proof -
  let ?cl = "[''proxy-type'' \<mapsto> StringValue ''peer'']"
  have s1: "Select example_keys example_tunnels ''direct'' False ''22225'' = Inr (example_tunnels ! 2)"
    and s2: "Select example_keys example_tunnels ''direct'' False ''lum'' = Inr (example_tunnels ! 2)"
    and s3: "Select example_keys example_tunnels ''direct'' False ''443'' = Inl ''no such port field''"
    by (simp_all add: select_eval)
  have f: "filter (class_matches ''peer'' False) example_tunnels = []"
    by (simp add: class_matches_def example_tunnels_def)
  have h: "Call_get_endpoint example_tunnels ''peer'' False '''' (Inl ''no matching endpoint'')
     \<in> set (fst (run example_env ?cl))"
    by (simp add: run_eval example_env_def select_eval)
  from selection_fails_closed
    [of "''''" example_keys example_tunnels "''peer''" False
        example_tunnels "''peer''" False "''''" "''no matching endpoint''" example_env ?cl] f h
  have "Select example_keys example_tunnels ''peer'' False '''' = Inl ''no matching endpoint''"
    and "snd (main example_env ?cl) = Some 5"
    and "filter is_NewProxyDialer (fst (run example_env ?cl)) = []"
    by blast+
  moreover
  from selection_fails_closed
    [of "''443''" example_keys example_tunnels "''direct''" False
        example_tunnels "''peer''" False "[]" "''no matching endpoint''" example_env ?cl] s3
  have "list_all (\<lambda>ep. \<not> port_matches example_keys ''443'' ep) example_tunnels"
    by simp
  ultimately show ?thesis using s1 s2 s3 f h by blast
qed

subsection \<open>One discovery, one selection\<close>




subsection \<open>The wiring of a successful start-up\<close>

text \<open>
  Claim C7. A run that reaches the server loop has built exactly one dialer and exactly
  one handler: the dialer from the network address and the TLS name of the endpoint
  \<^verbatim>\<open>get_endpoint\<close> selected and from the credentials handle \<^verbatim>\<open>CredService\<close>
  returned (the handle itself, as returned), the handler from that dialer and the
  resolver, and both before \<^verbatim>\<open>http.ListenAndServe\<close> is called with that handler.
  The component calls of such a run are these six, in this order.
\<close>

theorem startup_wiring:
  fixes e :: "('r, 'a, 'd, 'h) env"
  assumes "Call_ListenAndServe address h served \<in> set (fst (run e cl))"
  shows "\<exists>rs rt res ro ti co pty lg auth tuns trial fpf ep nd plg dialer.
           NewResolver e rs rt = Inr res \<and>
           CredService e ro ti co pty lg = Inr (auth, tuns) \<and>
           get_endpoint e tuns pty trial fpf = Inr ep \<and>
           dialer = NewProxyDialer e (NetAddr ep) (TLSName ep) auth nd \<and>
           h = NewProxyHandler e dialer res plg \<and>
           filter (\<lambda>ev. is_NewResolver ev \<or> is_CredService ev \<or> is_get_endpoint ev \<or>
                        is_NewProxyDialer ev \<or> is_NewProxyHandler ev \<or> is_ListenAndServe ev)
             (fst (run e cl)) =
             [Call_NewResolver rs rt (Inr res),
              Call_CredService ro ti co pty lg (Inr (auth, tuns)),
              Call_get_endpoint tuns pty trial fpf (Inr ep),
              Call_NewProxyDialer (NetAddr ep) (TLSName ep) auth nd dialer,
              Call_NewProxyHandler dialer res plg h,
              Call_ListenAndServe address h served]"
proof (cases rule: run_cases [where e = e and cl = cl])
  case (serving res auth tuns ep)
  with assms show ?thesis by auto
next
  case (terminated res auth tuns ep err)
  with assms show ?thesis by auto
qed (use assms in auto)

text \<open>The default run, with a server that keeps running.\<close>

theorem startup_wiring_witness:
  "Call_ListenAndServe ''127.0.0.1:8080'' ((''10.0.0.1:22222'', ''zagent1.example.net'', 1), ()) None
     \<in> set (fst (run example_env Map.empty)) \<and>
   filter is_NewProxyDialer (fst (run example_env Map.empty)) =
     [Call_NewProxyDialer ''10.0.0.1:22222'' ''zagent1.example.net'' 1
        \<lparr> Timeout = 30 * Second, KeepAlive = 30 * Second \<rparr>
        (''10.0.0.1:22222'', ''zagent1.example.net'', 1)] \<and>
   (\<exists>rs rt res ro ti co pty lg auth tuns trial fpf ep nd plg dialer.
      filter (\<lambda>ev. is_NewResolver ev \<or> is_CredService ev \<or> is_get_endpoint ev \<or>
                   is_NewProxyDialer ev \<or> is_NewProxyHandler ev \<or> is_ListenAndServe ev)
        (fst (run example_env Map.empty)) =
        [Call_NewResolver rs rt (Inr res),
         Call_CredService ro ti co pty lg (Inr (auth, tuns)),
         Call_get_endpoint tuns pty trial fpf (Inr ep),
         Call_NewProxyDialer (NetAddr ep) (TLSName ep) auth nd dialer,
         Call_NewProxyHandler dialer res plg
           ((''10.0.0.1:22222'', ''zagent1.example.net'', 1), ()),
         Call_ListenAndServe ''127.0.0.1:8080''
           ((''10.0.0.1:22222'', ''zagent1.example.net'', 1), ()) None])"
proof -
  have h: "Call_ListenAndServe ''127.0.0.1:8080''
      ((''10.0.0.1:22222'', ''zagent1.example.net'', 1), ()) None
     \<in> set (fst (run example_env Map.empty))"
    by (simp add: run_eval example_env_def select_eval)
  have d: "filter is_NewProxyDialer (fst (run example_env Map.empty)) =
     [Call_NewProxyDialer ''10.0.0.1:22222'' ''zagent1.example.net'' 1
        \<lparr> Timeout = 30 * Second, KeepAlive = 30 * Second \<rparr>
        (''10.0.0.1:22222'', ''zagent1.example.net'', 1)]"
    by (simp add: run_eval example_env_def select_eval)
  from startup_wiring [OF h] h d show ?thesis by blast
qed

subsection \<open>The flag \<^verbatim>\<open>-dont-use-trial\<close>\<close>

text \<open>
  Claim C8. The value of the flag named \<^verbatim>\<open>dont-use-trial\<close> is stored in the field
  \<^verbatim>\<open>use_trial\<close> and is, unchanged, the third argument of \<^verbatim>\<open>get_endpoint\<close>
  (the trial-ports argument): with \<^verbatim>\<open>-dont-use-trial\<close> on the command line that
  argument is true, without it false.
\<close>

theorem dont_use_trial_flag:
  fixes e :: "('r, 'a, 'd, 'h) env"
  assumes "Call_get_endpoint tuns pt trial fpf res \<in> set (fst (run e cl))"
  shows "use_trial (flag_Parse cl) = BoolVar cl ''dont-use-trial'' False \<and>
         trial = use_trial (flag_Parse cl) \<and>
         res = get_endpoint e tuns pt trial fpf \<and>
         (cl ''dont-use-trial'' = Some (BoolValue True) \<longrightarrow> trial) \<and>
         (cl ''dont-use-trial'' = None \<longrightarrow> \<not> trial)"
proof -
  have flag: "use_trial (flag_Parse cl) = BoolVar cl ''dont-use-trial'' False"
    by (simp add: flag_Parse_def)
  have arg: "trial = use_trial (flag_Parse cl) \<and> res = get_endpoint e tuns pt trial fpf"
    using assms by (cases rule: run_cases [where e = e and cl = cl]) auto
  from flag arg show ?thesis
    by (auto simp: BoolVar_def)
qed

text \<open>
  With \<^verbatim>\<open>-dont-use-trial\<close> the selector of the spec is asked for trial ports, and
  picks the trial endpoint.
\<close>

theorem dont_use_trial_flag_witness:
  "Call_get_endpoint example_tunnels ''direct'' True '''' (Inr (example_tunnels ! 0))
     \<in> set (fst (run example_env [''dont-use-trial'' \<mapsto> BoolValue True])) \<and>
   trial_port (example_tunnels ! 0) \<and>
   use_trial (flag_Parse [''dont-use-trial'' \<mapsto> BoolValue True])"
proof -
  have h: "Call_get_endpoint example_tunnels ''direct'' True '''' (Inr (example_tunnels ! 0))
     \<in> set (fst (run example_env [''dont-use-trial'' \<mapsto> BoolValue True]))"
    by (simp add: run_eval example_env_def select_eval)
  have t: "trial_port (example_tunnels ! 0)"
    by (simp add: example_tunnels_def)
  from dont_use_trial_flag [OF h]
  have u: "use_trial (flag_Parse [''dont-use-trial'' \<mapsto> BoolValue True])"
    by blast
  from h t u show ?thesis by blast
qed

subsection \<open>The flag \<^verbatim>\<open>-version\<close>\<close>

text \<open>
  Claim C10 says that \<^verbatim>\<open>-version\<close> prints the version and returns 0 whatever the
  other flags are. \<^verbatim>\<open>parse_args\<close> runs first: with \<^verbatim>\<open>-version\<close> and an empty
  \<^verbatim>\<open>-country\<close> the process exits with 2 and the version is not printed.
\<close>

theorem version_after_validation_counterexample:
  "showVersion (flag_Parse [''version'' \<mapsto> BoolValue True, ''country'' \<mapsto> StringValue '''']) \<and>
   snd (run example_env [''version'' \<mapsto> BoolValue True, ''country'' \<mapsto> StringValue '''']) = Exit 2 \<and>
   snd (main example_env [''version'' \<mapsto> BoolValue True, ''country'' \<mapsto> StringValue '''']) = Some 2 \<and>
   Stdout version \<notin> set (fst (run example_env [''version'' \<mapsto> BoolValue True, ''country'' \<mapsto> StringValue '''']))"
  by (simp add: run_eval)

text \<open>
  Claim C10, amended. When \<^verbatim>\<open>-version\<close> is set and the arguments pass the checks of
  \<^verbatim>\<open>parse_args\<close>, \<^verbatim>\<open>run\<close> prints the version and returns 0, and that is all
  it does, whatever the other flags are (the list modes included): no call of the
  environment, so no network operation and no resolver, credential service, dialer or
  handler.
\<close>

theorem version_flag:
  fixes e :: "('r, 'a, 'd, 'h) env"
  assumes "showVersion (flag_Parse cl)" and "\<not> rejected (flag_Parse cl)"
  shows "run e cl = ([Stdout version], Return 0) \<and> main e cl = ([Stdout version], Some 0)"
  using assms
  by (cases rule: run_cases [where e = e and cl = cl]) (auto simp: main_def)

text \<open>\<^verbatim>\<open>-version -list-proxies\<close>: the version wins over the list mode.\<close>

theorem version_flag_witness:
  "showVersion (flag_Parse [''version'' \<mapsto> BoolValue True, ''list-proxies'' \<mapsto> BoolValue True]) \<and>
   \<not> rejected (flag_Parse [''version'' \<mapsto> BoolValue True, ''list-proxies'' \<mapsto> BoolValue True]) \<and>
   main example_env [''version'' \<mapsto> BoolValue True, ''list-proxies'' \<mapsto> BoolValue True]
     = ([Stdout ''undefined''], Some 0)"
proof -
  let ?cl = "[''version'' \<mapsto> BoolValue True, ''list-proxies'' \<mapsto> BoolValue True]"
  have h1: "showVersion (flag_Parse ?cl)"
    by (simp add: flag_Parse_def BoolVar_def)
  have h2: "\<not> rejected (flag_Parse ?cl)"
    by (simp add: rejected_def flag_Parse_def BoolVar_def StringVar_def)
  from version_flag [OF h1 h2, of example_env] h1 h2 show ?thesis
    by (simp add: version_def)
qed

end
